theory Spec2Isabelle
  imports Complex_Main
begin

section \<open>Values of the interval algebra\<close>

text \<open>
  The three-valued results of the runtime: JavaScript \<open>true\<close>, \<open>false\<close> and \<open>null\<close>
  (unknown).
\<close>

datatype tri = TTrue | TFalse | TUnknown

definition tv :: "bool \<Rightarrow> tri" where
  "tv b = (if b then TTrue else TFalse)"

text \<open>
  What a call can throw. \<open>Error msg\<close> is an \<open>Error\<close> thrown by interval.js itself, with the
  message of the source; \<open>TypeError\<close> is the JavaScript runtime error of reading a property
  of \<open>null\<close> or calling a method a value does not have; \<open>UsageError\<close> and \<open>Overflow\<close> are
  raised by the point-type collaborators (mismatched units or types, stepping past a
  sentinel).
\<close>

datatype error = Error string | TypeError | UsageError | Overflow

type_synonym precision = string

datatype tkind = KDateTime | KDate | KTime

text \<open>
  A boundary value: a plain number (JavaScript numbers, idealised as rationals with exact
  arithmetic), a Quantity (value and unit), a temporal value of the host (DateTime, Date or
  Time, carried abstractly as \<open>'t\<close>), or an Uncertainty with its two bounds. A JavaScript
  \<open>null\<close> is \<open>None\<close> of \<open>'t point option\<close>.
\<close>

datatype 't point =
    Num rat
  | Qty rat string
  | Tmp 't
  | Unc "'t point option" "'t point option"

datatype rel = EQ | LT | LE | GT | GE

text \<open>
  The collaborators the source imports and the specification leaves abstract: the sentinel
  values of \<open>minValueForInstance\<close> and \<open>maxValueForInstance\<close> for numbers and quantity
  values, and the operations of the temporal value type (its kind flags \<open>isDateTime\<close>,
  \<open>isDate\<close>, \<open>isTime\<close>, its ordering, \<open>sameAs\<close>, \<open>add\<close>, stepping, sentinels and
  \<open>isMorePrecise\<close>). They are parameters of every operator.
\<close>

record 't env =
  min_num :: rat
  max_num :: rat
  min_qty :: rat
  max_qty :: rat
  t_kind :: "'t \<Rightarrow> tkind"
  t_compare :: "rel \<Rightarrow> 't \<Rightarrow> 't \<Rightarrow> precision option \<Rightarrow> error + tri"
  t_sameAs :: "'t \<Rightarrow> 't point option \<Rightarrow> precision option \<Rightarrow> error + tri"
  t_add :: "'t \<Rightarrow> int \<Rightarrow> precision \<Rightarrow> error + 't point option"
  t_successor :: "'t \<Rightarrow> error + 't"
  t_predecessor :: "'t \<Rightarrow> error + 't"
  t_min :: "'t \<Rightarrow> 't"
  t_max :: "'t \<Rightarrow> 't"
  t_isMorePrecise :: "'t \<Rightarrow> 't \<Rightarrow> bool"

text \<open>Sequencing of calls that may throw: the first error is the result.\<close>

definition bindE :: "error + 'a \<Rightarrow> ('a \<Rightarrow> error + 'b) \<Rightarrow> error + 'b" where
  "bindE m f = (case m of Inl e \<Rightarrow> Inl e | Inr x \<Rightarrow> f x)"

section \<open>Three-valued logic (logic.js)\<close>

text \<open>
  Modelled from the spec: \<open>ThreeValuedLogic.and\<close> of logic.js, which is not among the
  sources. AND is false if either operand is false, true if both are true, otherwise
  unknown.
\<close>

definition and3 :: "tri \<Rightarrow> tri \<Rightarrow> tri" where
  "and3 a b = (if a = TFalse \<or> b = TFalse then TFalse
               else if a = TTrue \<and> b = TTrue then TTrue else TUnknown)"

text \<open>
  Modelled from the spec: \<open>ThreeValuedLogic.or\<close> of logic.js. OR is true if either operand
  is true, false if both are false, otherwise unknown.
\<close>

definition or3 :: "tri \<Rightarrow> tri \<Rightarrow> tri" where
  "or3 a b = (if a = TTrue \<or> b = TTrue then TTrue
              else if a = TFalse \<and> b = TFalse then TFalse else TUnknown)"

text \<open>
  Modelled from the spec: \<open>ThreeValuedLogic.not\<close> of logic.js. NOT flips true and false and
  keeps unknown.
\<close>

definition not3 :: "tri \<Rightarrow> tri" where
  "not3 a = (case a of TTrue \<Rightarrow> TFalse | TFalse \<Rightarrow> TTrue | TUnknown \<Rightarrow> TUnknown)"

section \<open>Three-valued comparison layer (util/comparison.js, uncertainty.js)\<close>

text \<open>
  Modelled from the spec: the native ordering of two numbers, the five relations of
  util/comparison.js as one function of the relation.
\<close>

fun native :: "rel \<Rightarrow> rat \<Rightarrow> rat \<Rightarrow> bool" where
  "native EQ a b = (a = b)"
| "native LT a b = (a < b)"
| "native LE a b = (a \<le> b)"
| "native GT a b = (a > b)"
| "native GE a b = (a \<ge> b)"

text \<open>
  Modelled from the spec: the fall-back of the comparison layer for two present values that
  are not Uncertainties. Same-typed values use the native ordering of their type; Quantity
  ordering requires equal units and a mismatch is a usage error; temporal values are
  compared by the temporal collaborator at the given precision; mismatched types are a
  usage error.
\<close>

fun scalar_cmp :: "'t env \<Rightarrow> rel \<Rightarrow> 't point \<Rightarrow> 't point \<Rightarrow> precision option \<Rightarrow> error + tri" where
  "scalar_cmp env r (Num a) (Num b) prec = Inr (tv (native r a b))"
| "scalar_cmp env r (Qty a u) (Qty b v) prec =
     (if u = v then Inr (tv (native r a b)) else Inl UsageError)"
| "scalar_cmp env r (Tmp s) (Tmp t) prec = t_compare env r s t prec"
| "scalar_cmp env r x y prec = Inl UsageError"

text \<open>
  Modelled from the spec: the comparison of two bounds of Uncertainties in uncertainty.js;
  an absent bound makes the comparison unknown.
\<close>

fun bound_cmp :: "'t env \<Rightarrow> rel \<Rightarrow> 't point option \<Rightarrow> 't point option \<Rightarrow> error + tri" where
  "bound_cmp env r (Some x) (Some y) = scalar_cmp env r x y None"
| "bound_cmp env r a b = Inr TUnknown"

fun isUncertainty :: "'t point \<Rightarrow> bool" where
  "isUncertainty (Unc l h) = True"
| "isUncertainty p = False"

text \<open>
  Modelled from the spec: the low bound of a value seen as an Uncertainty (uncertainty.js);
  a single value is the degenerate range \<open>[v, v]\<close>.
\<close>

fun u_low :: "'t point \<Rightarrow> 't point option" where
  "u_low (Unc l h) = l"
| "u_low p = Some p"

text \<open>
  Modelled from the spec: the high bound of a value seen as an Uncertainty
  (uncertainty.js).
\<close>

fun u_high :: "'t point \<Rightarrow> 't point option" where
  "u_high (Unc l h) = h"
| "u_high p = Some p"

text \<open>
  Modelled from the spec: the outcome of a range-aware comparison of uncertainty.js, true
  when the condition \<open>t\<close> for true holds, false when the condition \<open>f\<close> for false holds,
  otherwise unknown.
\<close>

definition decided :: "tri \<Rightarrow> tri \<Rightarrow> tri" where
  "decided t f = (if t = TTrue then TTrue else if f = TTrue then TFalse else TUnknown)"

text \<open>
  Modelled from the spec: the range-aware comparison of uncertainty.js. \<open>lessThan\<close> is true
  iff \<open>this.high < other.low\<close>, false iff \<open>this.low \<ge> other.high\<close>, otherwise unknown, and
  the other relations follow the symmetric rules: a relation is decided only when the whole
  range of one operand dominates the whole range of the other.
\<close>

fun range_cmp :: "'t env \<Rightarrow> rel \<Rightarrow> 't point \<Rightarrow> 't point \<Rightarrow> error + tri" where
  "range_cmp env LT x y =
     bindE (bound_cmp env LT (u_high x) (u_low y)) (\<lambda>t.
     bindE (bound_cmp env GE (u_low x) (u_high y)) (\<lambda>f. Inr (decided t f)))"
| "range_cmp env LE x y =
     bindE (bound_cmp env LE (u_high x) (u_low y)) (\<lambda>t.
     bindE (bound_cmp env GT (u_low x) (u_high y)) (\<lambda>f. Inr (decided t f)))"
| "range_cmp env GT x y =
     bindE (bound_cmp env GT (u_low x) (u_high y)) (\<lambda>t.
     bindE (bound_cmp env LE (u_high x) (u_low y)) (\<lambda>f. Inr (decided t f)))"
| "range_cmp env GE x y =
     bindE (bound_cmp env GE (u_low x) (u_high y)) (\<lambda>t.
     bindE (bound_cmp env LT (u_high x) (u_low y)) (\<lambda>f. Inr (decided t f)))"
| "range_cmp env EQ x y =
     bindE (bound_cmp env LE (u_high x) (u_low y)) (\<lambda>t1.
     bindE (bound_cmp env GE (u_low x) (u_high y)) (\<lambda>t2.
     bindE (bound_cmp env LT (u_high x) (u_low y)) (\<lambda>f1.
     bindE (bound_cmp env GT (u_low x) (u_high y)) (\<lambda>f2.
       Inr (decided (and3 t1 t2) (or3 f1 f2))))))"

text \<open>
  Modelled from the spec: \<open>cmp.equals\<close>, \<open>cmp.lessThan\<close>, \<open>cmp.lessThanOrEquals\<close>,
  \<open>cmp.greaterThan\<close> and \<open>cmp.greaterThanOrEquals\<close> of util/comparison.js, as one function
  of the relation. The layer is null-propagating: an absent operand gives unknown. If
  either operand is an Uncertainty the range-aware comparison decides; otherwise the
  fall-back above.
\<close>

fun cmp :: "'t env \<Rightarrow> rel \<Rightarrow> 't point option \<Rightarrow> 't point option \<Rightarrow> precision option \<Rightarrow> error + tri" where
  "cmp env r (Some x) (Some y) prec =
     (if isUncertainty x \<or> isUncertainty y then range_cmp env r x y
      else scalar_cmp env r x y prec)"
| "cmp env r a b prec = Inr TUnknown"

section \<open>Stepping and sentinels (util/math.js)\<close>

text \<open>
  Modelled from the spec: \<open>successor\<close> of util/math.js. A plain number steps by 1; a
  Quantity steps its value and keeps its unit; a temporal value is stepped by the temporal
  collaborator; an Uncertainty steps both bounds. Stepping is undefined at the sentinel of
  the type (the closed form of an unbounded boundary), where it raises.
\<close>

fun successor :: "'t env \<Rightarrow> 't point \<Rightarrow> error + 't point" where
  "successor env (Num n) = (if n \<ge> max_num env then Inl Overflow else Inr (Num (n + 1)))"
| "successor env (Qty v u) = (if v \<ge> max_qty env then Inl Overflow else Inr (Qty (v + 1) u))"
| "successor env (Tmp t) = bindE (t_successor env t) (\<lambda>t'. Inr (Tmp t'))"
| "successor env (Unc l h) =
     bindE (case l of None \<Rightarrow> Inr None | Some x \<Rightarrow> bindE (successor env x) (\<lambda>x'. Inr (Some x'))) (\<lambda>l'.
     bindE (case h of None \<Rightarrow> Inr None | Some y \<Rightarrow> bindE (successor env y) (\<lambda>y'. Inr (Some y'))) (\<lambda>h'.
       Inr (Unc l' h')))"

text \<open>
  Modelled from the spec: \<open>predecessor\<close> of util/math.js, the mirror image of
  \<open>successor\<close>.
\<close>

fun predecessor :: "'t env \<Rightarrow> 't point \<Rightarrow> error + 't point" where
  "predecessor env (Num n) = (if n \<le> min_num env then Inl Overflow else Inr (Num (n - 1)))"
| "predecessor env (Qty v u) = (if v \<le> min_qty env then Inl Overflow else Inr (Qty (v - 1) u))"
| "predecessor env (Tmp t) = bindE (t_predecessor env t) (\<lambda>t'. Inr (Tmp t'))"
| "predecessor env (Unc l h) =
     bindE (case l of None \<Rightarrow> Inr None | Some x \<Rightarrow> bindE (predecessor env x) (\<lambda>x'. Inr (Some x'))) (\<lambda>l'.
     bindE (case h of None \<Rightarrow> Inr None | Some y \<Rightarrow> bindE (predecessor env y) (\<lambda>y'. Inr (Some y'))) (\<lambda>h'.
       Inr (Unc l' h')))"

text \<open>
  Modelled from the spec: \<open>successor\<close> on a value that may be \<open>null\<close>; stepping an absent
  value gives an absent value.
\<close>

definition successor_opt :: "'t env \<Rightarrow> 't point option \<Rightarrow> error + 't point option" where
  "successor_opt env a =
     (case a of None \<Rightarrow> Inr None | Some x \<Rightarrow> bindE (successor env x) (\<lambda>x'. Inr (Some x')))"

text \<open>
  Modelled from the spec: \<open>predecessor\<close> on a value that may be \<open>null\<close>.
\<close>

definition predecessor_opt :: "'t env \<Rightarrow> 't point option \<Rightarrow> error + 't point option" where
  "predecessor_opt env a =
     (case a of None \<Rightarrow> Inr None | Some x \<Rightarrow> bindE (predecessor env x) (\<lambda>x'. Inr (Some x')))"

text \<open>
  Modelled from the spec: \<open>minValueForInstance\<close> of util/math.js, the type-specific minimum
  sentinel for the type of the given value: a number for a number, a Quantity of the same
  unit for a Quantity, the temporal sentinel for a temporal value, and no sentinel
  (\<open>null\<close>) for an absent value or an Uncertainty.
\<close>

fun minValueForInstance :: "'t env \<Rightarrow> 't point option \<Rightarrow> 't point option" where
  "minValueForInstance env (Some (Num n)) = Some (Num (min_num env))"
| "minValueForInstance env (Some (Qty v u)) = Some (Qty (min_qty env) u)"
| "minValueForInstance env (Some (Tmp t)) = Some (Tmp (t_min env t))"
| "minValueForInstance env p = None"

text \<open>
  Modelled from the spec: \<open>maxValueForInstance\<close> of util/math.js, the type-specific maximum
  sentinel.
\<close>

fun maxValueForInstance :: "'t env \<Rightarrow> 't point option \<Rightarrow> 't point option" where
  "maxValueForInstance env (Some (Num n)) = Some (Num (max_num env))"
| "maxValueForInstance env (Some (Qty v u)) = Some (Qty (max_qty env) u)"
| "maxValueForInstance env (Some (Tmp t)) = Some (Tmp (t_max env t))"
| "maxValueForInstance env p = None"

section \<open>Interval (src/datatypes/interval.js)\<close>

record 't interval =
  low :: "'t point option"
  high :: "'t point option"
  lowClosed :: bool
  highClosed :: bool

text \<open>The constructor, with its defaults \<open>lowClosed = true\<close> and \<open>highClosed = true\<close>.\<close>

definition Interval :: "'t point option \<Rightarrow> 't point option \<Rightarrow> bool \<Rightarrow> bool \<Rightarrow> 't interval" where
  "Interval l h lc hc = \<lparr>low = l, high = h, lowClosed = lc, highClosed = hc\<rparr>"

definition Interval2 :: "'t point option \<Rightarrow> 't point option \<Rightarrow> 't interval" where
  "Interval2 l h = Interval l h True True"

text \<open>
  An argument of an operator: \<open>undefined\<close>, a point or \<open>null\<close> (\<open>Point None\<close>), or an
  interval (a value whose \<open>isInterval\<close> is true).
\<close>

datatype 't arg = Undef | Point "'t point option" | Ival "'t interval"

fun isDateTime :: "'t env \<Rightarrow> 't point \<Rightarrow> bool" where
  "isDateTime env (Tmp t) = (t_kind env t = KDateTime)"
| "isDateTime env p = False"

fun isDate :: "'t env \<Rightarrow> 't point \<Rightarrow> bool" where
  "isDate env (Tmp t) = (t_kind env t = KDate)"
| "isDate env p = False"

fun isTime :: "'t env \<Rightarrow> 't point \<Rightarrow> bool" where
  "isTime env (Tmp t) = (t_kind env t = KTime)"
| "isTime env p = False"

fun isQuantity :: "'t point \<Rightarrow> bool" where
  "isQuantity (Qty v u) = True"
| "isQuantity p = False"

fun isNumber :: "'t point \<Rightarrow> bool" where
  "isNumber (Num n) = True"
| "isNumber p = False"

text \<open>
  The test of \<open>toClosed\<close> on \<open>point\<close>: \<open>typeof point === 'number'\<close> or a DateTime, a
  Quantity or a Date.
\<close>

fun steppable :: "'t env \<Rightarrow> 't point option \<Rightarrow> bool" where
  "steppable env None = False"
| "steppable env (Some p) = (isNumber p \<or> isDateTime env p \<or> isQuantity p \<or> isDate env p)"

text \<open>
  \<open>toClosed()\<close>. \<open>point_of\<close> is its \<open>point\<close>, the low boundary if present and the high
  one otherwise. In the steppable branch the two \<open>switch (true)\<close> blocks resolve each
  boundary (\<open>toClosed_low\<close>, \<open>toClosed_high\<close>), then a boundary that is still \<open>null\<close> is
  wrapped in an Uncertainty (the low one first, so the high one sees the resolved low).
\<close>

definition point_of :: "'t interval \<Rightarrow> 't point option" where
  "point_of i = (if low i \<noteq> None then low i else high i)"

definition toClosed_low :: "'t env \<Rightarrow> 't point option \<Rightarrow> 't interval \<Rightarrow> error + 't point option" where
  "toClosed_low env point i =
     (if lowClosed i \<and> low i = None then Inr (minValueForInstance env point)
      else if \<not> lowClosed i \<and> low i \<noteq> None then successor_opt env (low i)
      else Inr (low i))"

definition toClosed_high :: "'t env \<Rightarrow> 't point option \<Rightarrow> 't interval \<Rightarrow> error + 't point option" where
  "toClosed_high env point i =
     (if highClosed i \<and> high i = None then Inr (maxValueForInstance env point)
      else if \<not> highClosed i \<and> high i \<noteq> None then predecessor_opt env (high i)
      else Inr (high i))"

definition toClosed :: "'t env \<Rightarrow> 't interval \<Rightarrow> error + 't interval" where
  "toClosed env i =
     (let point = point_of i in
      if steppable env point then
        bindE (toClosed_low env point i) (\<lambda>lo.
        bindE (toClosed_high env point i) (\<lambda>hi.
          let lo' = (if lo = None then Some (Unc (minValueForInstance env point) hi) else lo);
              hi' = (if hi = None then Some (Unc lo' (maxValueForInstance env point)) else hi)
          in Inr (Interval lo' hi' True True)))
      else Inr (Interval (low i) (high i) True True))"

text \<open>
  \<open>contains(item, precision)\<close>. The two guards compare a closed, present boundary with the
  item by \<open>cmp.equals\<close> before the check that the item is a point; against an interval
  item the comparison layer is given mismatched types.
\<close>

definition lowFn :: "'t env \<Rightarrow> 't interval \<Rightarrow> 't point option \<Rightarrow> precision option \<Rightarrow> error + tri" where
  "lowFn env i item prec =
     (if lowClosed i \<and> low i = None then Inr TTrue
      else if lowClosed i then cmp env LE (low i) item prec
      else cmp env LT (low i) item prec)"

definition highFn :: "'t env \<Rightarrow> 't interval \<Rightarrow> 't point option \<Rightarrow> precision option \<Rightarrow> error + tri" where
  "highFn env i item prec =
     (if highClosed i \<and> high i = None then Inr TTrue
      else if highClosed i then cmp env GE (high i) item prec
      else cmp env GT (high i) item prec)"

definition contains_point :: "'t env \<Rightarrow> 't interval \<Rightarrow> 't point option \<Rightarrow> precision option \<Rightarrow> error + tri" where
  "contains_point env i item prec =
     bindE (if lowClosed i \<and> low i \<noteq> None then cmp env EQ (low i) item None else Inr TFalse) (\<lambda>e1.
     if e1 = TTrue then Inr TTrue else
     bindE (if highClosed i \<and> high i \<noteq> None then cmp env EQ (high i) item None else Inr TFalse) (\<lambda>e2.
     if e2 = TTrue then Inr TTrue else
     bindE (lowFn env i item prec) (\<lambda>l.
     bindE (highFn env i item prec) (\<lambda>h. Inr (and3 l h)))))"

fun contains :: "'t env \<Rightarrow> 't interval \<Rightarrow> 't arg \<Rightarrow> precision option \<Rightarrow> error + tri" where
  "contains env i (Ival j) prec =
     (if (lowClosed i \<and> low i \<noteq> None) \<or> (highClosed i \<and> high i \<noteq> None) then Inl UsageError
      else Inl (Error ''Argument to contains must be a point''))"
| "contains env i (Point item) prec = contains_point env i item prec"
| "contains env i Undef prec = contains_point env i None prec"

text \<open>\<open>includes(other, precision)\<close>.\<close>

fun includes_iv :: "'t env \<Rightarrow> 't interval \<Rightarrow> 't arg \<Rightarrow> precision option \<Rightarrow> error + tri" where
  "includes_iv env i (Ival other) prec =
     bindE (toClosed env i) (\<lambda>a.
     bindE (toClosed env other) (\<lambda>b.
     bindE (cmp env LE (low a) (low b) prec) (\<lambda>l.
     bindE (cmp env GE (high a) (high b) prec) (\<lambda>h. Inr (and3 l h)))))"
| "includes_iv env i other prec = contains env i other prec"

text \<open>
  \<open>overlaps\<close>, \<open>overlapsAfter\<close> and \<open>overlapsBefore\<close>: an interval item contributes the
  boundaries of its closed form, any other item stands for both boundaries itself.
\<close>

fun item_bounds :: "'t env \<Rightarrow> 't arg \<Rightarrow> error + ('t point option \<times> 't point option)" where
  "item_bounds env (Ival item) = bindE (toClosed env item) (\<lambda>c. Inr (low c, high c))"
| "item_bounds env (Point p) = Inr (p, p)"
| "item_bounds env Undef = Inr (None, None)"

definition overlaps :: "'t env \<Rightarrow> 't interval \<Rightarrow> 't arg \<Rightarrow> precision option \<Rightarrow> error + tri" where
  "overlaps env i item prec =
     bindE (toClosed env i) (\<lambda>closed.
     bindE (item_bounds env item) (\<lambda>(lo, hi).
     bindE (cmp env LE (low closed) hi prec) (\<lambda>l.
     bindE (cmp env GE (high closed) lo prec) (\<lambda>h. Inr (and3 l h)))))"

definition overlapsAfter :: "'t env \<Rightarrow> 't interval \<Rightarrow> 't arg \<Rightarrow> precision option \<Rightarrow> error + tri" where
  "overlapsAfter env i item prec =
     bindE (toClosed env i) (\<lambda>closed.
     bindE (item_bounds env item) (\<lambda>(lo, hi).
     bindE (cmp env LE (low closed) hi prec) (\<lambda>l.
     bindE (cmp env GT (high closed) hi prec) (\<lambda>h. Inr (and3 l h)))))"

definition overlapsBefore :: "'t env \<Rightarrow> 't interval \<Rightarrow> 't arg \<Rightarrow> precision option \<Rightarrow> error + tri" where
  "overlapsBefore env i item prec =
     bindE (toClosed env i) (\<lambda>closed.
     bindE (item_bounds env item) (\<lambda>(lo, hi).
     bindE (cmp env LT (low closed) lo prec) (\<lambda>l.
     bindE (cmp env GE (high closed) lo prec) (\<lambda>h. Inr (and3 l h)))))"

text \<open>\<open>equals(other)\<close>.\<close>

fun equals :: "'t env \<Rightarrow> 't interval \<Rightarrow> 't arg \<Rightarrow> error + tri" where
  "equals env i (Ival other) =
     bindE (toClosed env i) (\<lambda>a.
     bindE (toClosed env other) (\<lambda>b.
     bindE (cmp env EQ (low a) (low b) None) (\<lambda>l.
     bindE (cmp env EQ (high a) (high b) None) (\<lambda>h. Inr (and3 l h)))))"
| "equals env i other = Inr TFalse"

text \<open>
  Modelled from the spec: the method \<open>sameAs\<close> of a boundary value. Only temporal values
  have the precision-qualified comparison; on \<open>null\<close> or on a value without the method the
  call is a TypeError.
\<close>

fun method_sameAs :: "'t env \<Rightarrow> 't point option \<Rightarrow> 't point option \<Rightarrow> precision option \<Rightarrow> error + tri" where
  "method_sameAs env (Some (Tmp t)) a prec = t_sameAs env t a prec"
| "method_sameAs env recv a prec = Inl TypeError"

text \<open>
  Modelled from the spec: the method \<open>add\<close> of a boundary value, which only temporal
  values have.
\<close>

fun method_add :: "'t env \<Rightarrow> 't point \<Rightarrow> int \<Rightarrow> precision \<Rightarrow> error + 't point option" where
  "method_add env (Tmp t) n prec = t_add env t n prec"
| "method_add env recv n prec = Inl TypeError"

text \<open>\<open>other.toClosed()\<close>: a value other than an interval has no \<open>toClosed\<close>.\<close>

fun arg_toClosed :: "'t env \<Rightarrow> 't arg \<Rightarrow> error + 't interval" where
  "arg_toClosed env (Ival j) = toClosed env j"
| "arg_toClosed env other = Inl TypeError"

fun isDateTime_opt :: "'t env \<Rightarrow> 't point option \<Rightarrow> bool" where
  "isDateTime_opt env (Some p) = isDateTime env p"
| "isDateTime_opt env None = False"

text \<open>
  \<open>meetsAfter\<close> and \<open>meetsBefore\<close>: the body of the \<open>try\<close> block, and the operator, whose
  \<open>catch\<close> turns every error of the body into \<open>false\<close>.
\<close>

definition meetsAfter_body :: "'t env \<Rightarrow> 't interval \<Rightarrow> 't arg \<Rightarrow> precision option \<Rightarrow> error + tri" where
  "meetsAfter_body env i other prec =
     (if prec \<noteq> None \<and> isDateTime_opt env (low i) then
        bindE (toClosed env i) (\<lambda>a.
        bindE (arg_toClosed env other) (\<lambda>b.
        bindE (case high b of None \<Rightarrow> Inr None
               | Some h \<Rightarrow> method_add env h 1 (the prec)) (\<lambda>stepped.
          method_sameAs env (low a) stepped prec)))
      else
        bindE (toClosed env i) (\<lambda>a.
        bindE (arg_toClosed env other) (\<lambda>b.
        bindE (successor_opt env (high b)) (\<lambda>stepped.
          cmp env EQ (low a) stepped None))))"

definition meetsAfter :: "'t env \<Rightarrow> 't interval \<Rightarrow> 't arg \<Rightarrow> precision option \<Rightarrow> tri" where
  "meetsAfter env i other prec =
     (case meetsAfter_body env i other prec of Inl e \<Rightarrow> TFalse | Inr r \<Rightarrow> r)"

definition meetsBefore_body :: "'t env \<Rightarrow> 't interval \<Rightarrow> 't arg \<Rightarrow> precision option \<Rightarrow> error + tri" where
  "meetsBefore_body env i other prec =
     (if prec \<noteq> None \<and> isDateTime_opt env (high i) then
        bindE (toClosed env i) (\<lambda>a.
        bindE (arg_toClosed env other) (\<lambda>b.
        bindE (case low b of None \<Rightarrow> Inr None
               | Some l \<Rightarrow> method_add env l (- 1) (the prec)) (\<lambda>stepped.
          method_sameAs env (high a) stepped prec)))
      else
        bindE (toClosed env i) (\<lambda>a.
        bindE (arg_toClosed env other) (\<lambda>b.
        bindE (predecessor_opt env (low b)) (\<lambda>stepped.
          cmp env EQ (high a) stepped None))))"

definition meetsBefore :: "'t env \<Rightarrow> 't interval \<Rightarrow> 't arg \<Rightarrow> precision option \<Rightarrow> tri" where
  "meetsBefore env i other prec =
     (case meetsBefore_body env i other prec of Inl e \<Rightarrow> TFalse | Inr r \<Rightarrow> r)"


text \<open>
  The helpers at the end of interval.js. \<open>js_num\<close> is the number a relational operator of
  JavaScript sees: \<open>null\<close> is 0, a number is itself, an object is \<open>NaN\<close> (\<open>None\<close>), with
  which every comparison is false. \<open>strict_eq\<close> is \<open>===\<close>: numbers by value, \<open>null\<close> with
  \<open>null\<close>; two objects are identical only as the same object, and every boundary value of
  the model is an object of its own.
\<close>

fun js_num :: "'t point option \<Rightarrow> rat option" where
  "js_num None = Some 0"
| "js_num (Some (Num n)) = Some n"
| "js_num (Some p) = None"
















text \<open>
  \<open>except(other)\<close>: \<open>null\<close> for a \<open>null\<close> argument, an error for \<open>undefined\<close> or a point.
  The result \<open>None\<close> is the \<open>null\<close> the source returns for "no result".
\<close>

fun except_iv :: "'t env \<Rightarrow> 't interval \<Rightarrow> 't arg \<Rightarrow> error + 't interval option" where
  "except_iv env i (Point None) = Inr None"
| "except_iv env i (Ival other) =
     bindE (overlaps env i (Ival other) None) (\<lambda>ol.
     if ol = TTrue then
       bindE (overlapsBefore env i (Ival other) None) (\<lambda>olb.
       bindE (overlapsAfter env i (Ival other) None) (\<lambda>ola.
       if olb = TTrue \<and> ola = TFalse then
         Inr (Some (Interval (low i) (low other) (lowClosed i) (\<not> lowClosed other)))
       else if ola = TTrue \<and> olb = TFalse then
         Inr (Some (Interval (high other) (high i) (\<not> highClosed other) (highClosed i)))
       else Inr None))
     else if ol = TFalse then Inr (Some i)
     else Inr None)"
| "except_iv env i other = Inl (Error ''Argument to except must be an interval'')"











text \<open>
  \<open>width()\<close>. Its result is \<open>null\<close>, a number, a Quantity, or \<open>NaN\<close> (arithmetic on
  something that is not a number). \<open>round8\<close> is
  \<open>Math.round(diff * Math.pow(10, 8)) / Math.pow(10, 8)\<close>, with \<open>Math.round\<close> rounding
  half up. In the Quantity branch the source evaluates that expression and drops its
  value: the Quantity is built from \<open>diff\<close>.
\<close>

datatype wvalue = WNull | WNum rat | WQty rat string | WNaN

definition round8 :: "rat \<Rightarrow> rat" where
  "round8 d = of_int \<lfloor>d * 10 ^ 8 + 1 / 2\<rfloor> / 10 ^ 8"

fun temporal_opt :: "'t env \<Rightarrow> 't point option \<Rightarrow> bool" where
  "temporal_opt env (Some p) = (isDateTime env p \<or> isDate env p \<or> isTime env p)"
| "temporal_opt env None = False"

fun isUncertainty_opt :: "'t point option \<Rightarrow> bool" where
  "isUncertainty_opt (Some p) = isUncertainty p"
| "isUncertainty_opt None = False"

definition width :: "'t env \<Rightarrow> 't interval \<Rightarrow> error + wvalue" where
  "width env i =
     (if temporal_opt env (low i) \<or> temporal_opt env (high i) then
        Inl (Error ''Width of Date, DateTime, and Time intervals is not supported'')
      else
        bindE (toClosed env i) (\<lambda>closed.
        if isUncertainty_opt (low closed) \<or> isUncertainty_opt (high closed) then Inr WNull
        else
          (case low closed of
             None \<Rightarrow> Inl TypeError
           | Some (Qty lowValue lowUnit) \<Rightarrow>
               (case high closed of
                  None \<Rightarrow> Inl TypeError
                | Some (Qty highValue highUnit) \<Rightarrow>
                    if lowUnit \<noteq> highUnit then
                      Inl (Error ''Cannot calculate width of Quantity Interval with different units'')
                    else Inr (WQty \<bar>highValue - lowValue\<bar> lowUnit)
                | Some other \<Rightarrow>
                    Inl (Error ''Cannot calculate width of Quantity Interval with different units''))
           | Some lo \<Rightarrow>
               (case (js_num (low closed), js_num (high closed)) of
                  (Some l, Some h) \<Rightarrow> Inr (WNum (round8 \<bar>h - l\<bar>))
                | _ \<Rightarrow> Inr WNaN))))"

section \<open>A concrete host\<close>

text \<open>
  An instance of the collaborators for evaluating the operators on concrete intervals of
  numbers and quantities: the sentinels of 32-bit integers, and a temporal type with the
  single value \<open>()\<close>, which cannot be stepped.
\<close>

definition int_env :: "unit env" where
  "int_env = \<lparr>min_num = - 2147483648, max_num = 2147483647,
     min_qty = - 2147483648, max_qty = 2147483647,
     t_kind = (\<lambda>t. KDateTime),
     t_compare = (\<lambda>r s t p. Inr (tv (r = EQ \<or> r = LE \<or> r = GE))),
     t_sameAs = (\<lambda>t a p. Inr (case a of Some (Tmp s) \<Rightarrow> TTrue | _ \<Rightarrow> TUnknown)),
     t_add = (\<lambda>t n p. Inl Overflow),
     t_successor = (\<lambda>t. Inl Overflow),
     t_predecessor = (\<lambda>t. Inl Overflow),
     t_min = (\<lambda>t. t), t_max = (\<lambda>t. t),
     t_isMorePrecise = (\<lambda>s t. False)\<rparr>"

section \<open>Vocabulary of the statements\<close>

text \<open>
  The unit and the magnitude of a boundary that is a plain number (no unit) or a Quantity.
  Two such values of one unit are ordered by their magnitudes.
\<close>

fun magnitude :: "'t point option \<Rightarrow> (string option \<times> rat) option" where
  "magnitude (Some (Num n)) = Some (None, n)"
| "magnitude (Some (Qty v u)) = Some (Some u, v)"
| "magnitude p = None"

text \<open>
  The plain number (no unit) or Quantity of a given unit and magnitude, and the sentinels
  of its kind.
\<close>

fun scalar :: "string option \<Rightarrow> rat \<Rightarrow> 't point" where
  "scalar None v = Num v"
| "scalar (Some u) v = Qty v u"

fun min_of :: "'t env \<Rightarrow> string option \<Rightarrow> rat" where
  "min_of env None = min_num env"
| "min_of env (Some u) = min_qty env"

fun max_of :: "'t env \<Rightarrow> string option \<Rightarrow> rat" where
  "max_of env None = max_num env"
| "max_of env (Some u) = max_qty env"

text \<open>The expression \<open>A.toClosed().toClosed().equals(A.toClosed())\<close>.\<close>

definition toClosed_twice_equals :: "'t env \<Rightarrow> 't interval \<Rightarrow> error + tri" where
  "toClosed_twice_equals env i =
     bindE (toClosed env i) (\<lambda>c1.
     bindE (toClosed env c1) (\<lambda>c2.
     bindE (toClosed env i) (\<lambda>c3. equals env c2 (Ival c3))))"

section \<open>Basic facts\<close>

lemma bindE_Inl [simp]: "bindE (Inl e) f = Inl e"
  by (simp add: bindE_def)

lemma bindE_Inr [simp]: "bindE (Inr x) f = f x"
  by (simp add: bindE_def)

lemma tv_simps [simp]:
  "tv True = TTrue" "tv False = TFalse" "(tv b = TTrue) = b" "(tv b = TFalse) = (\<not> b)"
  "tv b \<noteq> TUnknown"
  by (auto simp: tv_def)

lemma and3_tv [simp]: "and3 (tv a) (tv b) = tv (a \<and> b)"
  by (auto simp: and3_def tv_def)

lemma and3_simps [simp]:
  "and3 TTrue b = b" "and3 a TTrue = a" "and3 TFalse b = TFalse" "and3 a TFalse = TFalse"
  "and3 TUnknown TUnknown = TUnknown"
  by (cases a; cases b; simp add: and3_def)+

lemma or3_simps [simp]:
  "or3 TFalse TFalse = TFalse" "or3 TTrue b = TTrue" "or3 a TTrue = TTrue"
  by (auto simp: or3_def)

lemma native_refl [simp]: "native EQ x x" "native LE x x" "native GE x x"
  by simp_all

lemma low_Interval2 [simp]: "low (Interval2 l h) = l"
  by (simp add: Interval2_def Interval_def)

lemma high_Interval2 [simp]: "high (Interval2 l h) = h"
  by (simp add: Interval2_def Interval_def)

lemma magnitude_cases:
  "magnitude a = Some (k, x) \<Longrightarrow>
   (k = None \<and> a = Some (Num x)) \<or> (\<exists>u. k = Some u \<and> a = Some (Qty x u))"
  by (cases a rule: magnitude.cases) auto

lemma cmp_magnitude:
  "magnitude a = Some (k, x) \<Longrightarrow> magnitude b = Some (k, y) \<Longrightarrow>
   cmp env r a b prec = Inr (tv (native r x y))"
  by (drule magnitude_cases, drule magnitude_cases) auto

text \<open>
  The definitions a concrete evaluation unfolds, and the shape of a closed form: both flags
  are set, and either both boundaries are present or the interval is not steppable.
\<close>

lemmas toClosed_defs = toClosed_def point_of_def toClosed_low_def toClosed_high_def Let_def
  Interval_def successor_opt_def predecessor_opt_def

lemmas eval_defs = toClosed_defs Interval2_def int_env_def overlaps_def overlapsBefore_def
  overlapsAfter_def decided_def

lemma toClosed_shape:
  "toClosed env i = Inr c \<Longrightarrow>
   lowClosed c \<and> highClosed c \<and>
   ((low c \<noteq> None \<and> high c \<noteq> None) \<or>
    \<not> steppable env (point_of c))"
  by (auto simp: toClosed_defs bindE_def split: if_splits sum.splits)

lemma toClosed_fixed:
  "lowClosed c \<Longrightarrow> highClosed c \<Longrightarrow>
   (low c \<noteq> None \<and> high c \<noteq> None) \<or> \<not> steppable env (point_of c) \<Longrightarrow>
   toClosed env c = Inr c"
  by (cases c) (auto simp: toClosed_defs)

lemma toClosed_idem: "toClosed env i = Inr c \<Longrightarrow> toClosed env c = Inr c"
  by (drule toClosed_shape) (rule toClosed_fixed, auto)

lemma toClosed_Interval2 [simp]:
  "toClosed env (Interval2 (Some x) (Some y)) = Inr (Interval2 (Some x) (Some y))"
  by (rule toClosed_fixed) (simp_all add: Interval2_def Interval_def point_of_def)

lemma toClosed_degenerate: "toClosed env (Interval2 p p) = Inr (Interval2 p p)"
  by (rule toClosed_fixed) (cases p, simp_all add: Interval2_def Interval_def point_of_def)


text \<open>Facts about numbers and quantities as boundaries, and about Uncertainties over them.\<close>

lemma magnitude_scalar [simp]: "magnitude (Some (scalar k v)) = Some (k, v)"
  by (cases k) simp_all


lemma isNumber_scalar [simp]: "isNumber (scalar k v) \<longleftrightarrow> k = None"
  by (cases k) simp_all

lemma isQuantity_scalar [simp]: "isQuantity (scalar k v) \<longleftrightarrow> k \<noteq> None"
  by (cases k) simp_all



lemma minValue_scalar [simp]:
  "minValueForInstance env (Some (scalar k v)) = Some (scalar k (min_of env k))"
  by (cases k) simp_all

lemma maxValue_scalar [simp]:
  "maxValueForInstance env (Some (scalar k v)) = Some (scalar k (max_of env k))"
  by (cases k) simp_all

lemma scalar_not_None [simp]: "Some (scalar k v) \<noteq> None"
  by simp


lemma toClosed_open_null_low_scalar:
  assumes "low i = None" "\<not> lowClosed i" "high i = Some (scalar k h)"
    "highClosed i \<or> min_of env k < h"
  shows "toClosed env i =
     Inr (Interval (Some (Unc (Some (scalar k (min_of env k)))
                              (Some (scalar k (if highClosed i then h else h - 1)))))
                   (Some (scalar k (if highClosed i then h else h - 1))) True True)"
  using assms
  by (cases k)
     (auto simp: toClosed_def point_of_def toClosed_low_def toClosed_high_def Let_def
      successor_opt_def predecessor_opt_def)

lemma toClosed_open_null_high_scalar:
  assumes "high i = None" "\<not> highClosed i" "low i = Some (scalar k l)"
    "lowClosed i \<or> l < max_of env k"
  shows "toClosed env i =
     Inr (Interval (Some (scalar k (if lowClosed i then l else l + 1)))
                   (Some (Unc (Some (scalar k (if lowClosed i then l else l + 1)))
                              (Some (scalar k (max_of env k))))) True True)"
  using assms
  by (cases k)
     (auto simp: toClosed_def point_of_def toClosed_low_def toClosed_high_def Let_def
      successor_opt_def predecessor_opt_def)

lemma bound_cmp_magnitude:
  "magnitude a = Some (k, x) \<Longrightarrow> magnitude b = Some (k, y) \<Longrightarrow>
   bound_cmp env r a b = Inr (tv (native r x y))"
  by (drule magnitude_cases, drule magnitude_cases) auto

lemma cmp_Unc_self:
  assumes "magnitude pl = Some (k, x)" "magnitude ph = Some (k, y)" "x < y"
  shows "cmp env EQ (Some (Unc pl ph)) (Some (Unc pl ph)) prec = Inr TUnknown"
    and "cmp env LE (Some (Unc pl ph)) (Some (Unc pl ph)) prec = Inr TUnknown"
    and "cmp env GE (Some (Unc pl ph)) (Some (Unc pl ph)) prec = Inr TUnknown"
  using assms
  by (simp_all add: bound_cmp_magnitude [where k = k] decided_def)

lemma cmp_Unc_bounds:
  assumes "magnitude pl = Some (k, x)" "magnitude ph = Some (k, y)" "magnitude q = Some (k, z)"
  shows "cmp env LE (Some (Unc pl ph)) q prec = Inr (decided (tv (y \<le> z)) (tv (x > z)))"
    and "cmp env GE (Some (Unc pl ph)) q prec = Inr (decided (tv (x \<ge> z)) (tv (y < z)))"
    and "cmp env LE q (Some (Unc pl ph)) prec = Inr (decided (tv (z \<le> x)) (tv (z > y)))"
    and "cmp env GE q (Some (Unc pl ph)) prec = Inr (decided (tv (z \<ge> y)) (tv (z < x)))"
  using assms magnitude_cases [OF assms(3)]
  by (auto simp add: bound_cmp_magnitude [where k = k])

lemma decided_simps: "decided TTrue f = TTrue" "decided TFalse TTrue = TFalse"
  "decided TFalse TFalse = TUnknown"
  by (simp_all add: decided_def)


section \<open>Containment of a point\<close>



section \<open>Union\<close>


















section \<open>Difference\<close>

text \<open>
  Claim C3. \<open>except\<close> with an interval argument: when \<open>overlaps\<close> is false the receiver is
  returned unchanged; when \<open>overlaps\<close> is true, \<open>overlapsBefore\<close> true and \<open>overlapsAfter\<close>
  false, the result runs from the receiver's low boundary to the low boundary of \<open>other\<close>
  with the opposite flag; when \<open>overlapsAfter\<close> is true and \<open>overlapsBefore\<close> false, it
  runs from the high boundary of \<open>other\<close>, with the opposite flag, to the receiver's high
  boundary; every other pattern, and an unknown overlap, gives the "no result" \<open>null\<close>.
  \<open>Interval(1, 10).except(Interval(5, 10))\<close> is \<open>Interval(1, 5, true, false)\<close>.
\<close>

theorem except_cases:
  "(overlaps env i (Ival other) None = Inr TFalse \<longrightarrow>
      except_iv env i (Ival other) = Inr (Some i)) \<and>
   (overlaps env i (Ival other) None = Inr TTrue \<and>
    overlapsBefore env i (Ival other) None = Inr TTrue \<and>
    overlapsAfter env i (Ival other) None = Inr TFalse \<longrightarrow>
      except_iv env i (Ival other) =
        Inr (Some (Interval (low i) (low other) (lowClosed i) (\<not> lowClosed other)))) \<and>
   (overlaps env i (Ival other) None = Inr TTrue \<and>
    overlapsBefore env i (Ival other) None = Inr TFalse \<and>
    overlapsAfter env i (Ival other) None = Inr TTrue \<longrightarrow>
      except_iv env i (Ival other) =
        Inr (Some (Interval (high other) (high i) (\<not> highClosed other) (highClosed i)))) \<and>
   (overlaps env i (Ival other) None = Inr TUnknown \<longrightarrow>
      except_iv env i (Ival other) = Inr None) \<and>
   (overlaps env i (Ival other) None = Inr TTrue \<and>
    overlapsBefore env i (Ival other) None = Inr olb \<and>
    overlapsAfter env i (Ival other) None = Inr ola \<and>
    \<not> (olb = TTrue \<and> ola = TFalse) \<and> \<not> (ola = TTrue \<and> olb = TFalse) \<longrightarrow>
      except_iv env i (Ival other) = Inr None) \<and>
   except_iv env (Interval2 (Some (Num 1)) (Some (Num 10))) (Ival (Interval2 (Some (Num 5)) (Some (Num 10))))
     = Inr (Some (Interval (Some (Num 1)) (Some (Num 5)) True False))"
proof -
  have "except_iv env (Interval2 (Some (Num 1)) (Some (Num 10)))
      (Ival (Interval2 (Some (Num 5)) (Some (Num 10))))
     = Inr (Some (Interval (Some (Num 1)) (Some (Num 5)) True False))"
    by (simp add: overlaps_def overlapsBefore_def overlapsAfter_def)
       (simp add: Interval2_def Interval_def)
  then show ?thesis
    by simp
qed

theorem except_cases_witness:
  "except_iv int_env (Interval2 (Some (Num 1)) (Some (Num 2))) (Ival (Interval2 (Some (Num 5)) (Some (Num 6))))
     = Inr (Some (Interval2 (Some (Num 1)) (Some (Num 2)))) \<and>
   except_iv int_env (Interval2 (Some (Num 1)) (Some (Num 10))) (Ival (Interval (Some (Num 5)) (Some (Num 12)) False True))
     = Inr (Some (Interval (Some (Num 1)) (Some (Num 5)) True True)) \<and>
   except_iv int_env (Interval2 (Some (Num 5)) (Some (Num 10))) (Ival (Interval2 (Some (Num 1)) (Some (Num 7))))
     = Inr (Some (Interval (Some (Num 7)) (Some (Num 10)) False True)) \<and>
   except_iv int_env (Interval2 (Some (Num 4)) (Some (Num 5))) (Ival (Interval None (Some (Num 9)) False False))
     = Inr None \<and>
   except_iv int_env (Interval2 (Some (Num 1)) (Some (Num 10))) (Ival (Interval2 (Some (Num 3)) (Some (Num 5))))
     = Inr None"
  using
    except_cases [where env = int_env and i = "Interval2 (Some (Num 1)) (Some (Num 2))"
      and other = "Interval2 (Some (Num 5)) (Some (Num 6))" and olb = TFalse and ola = TFalse]
    except_cases [where env = int_env and i = "Interval2 (Some (Num 1)) (Some (Num 10))"
      and other = "Interval (Some (Num 5)) (Some (Num 12)) False True" and olb = TTrue and ola = TFalse]
    except_cases [where env = int_env and i = "Interval2 (Some (Num 5)) (Some (Num 10))"
      and other = "Interval2 (Some (Num 1)) (Some (Num 7))" and olb = TFalse and ola = TTrue]
    except_cases [where env = int_env and i = "Interval2 (Some (Num 4)) (Some (Num 5))"
      and other = "Interval None (Some (Num 9)) False False" and olb = TFalse and ola = TFalse]
    except_cases [where env = int_env and i = "Interval2 (Some (Num 1)) (Some (Num 10))"
      and other = "Interval2 (Some (Num 3)) (Some (Num 5))" and olb = TTrue and ola = TTrue]
  by (simp add: eval_defs)


section \<open>Overlap with a point\<close>

text \<open>
  Claim C10. \<open>overlaps\<close>, \<open>overlapsAfter\<close> and \<open>overlapsBefore\<close> accept a point \<open>p\<close> and
  answer as for the degenerate interval \<open>[p, p]\<close>: \<open>overlaps\<close> is the three-valued AND of
  \<open>closed.low \<le> p\<close> and \<open>closed.high \<ge> p\<close>, \<open>overlapsAfter\<close> takes \<open>p\<close> as the high
  boundary of its neighbour and \<open>overlapsBefore\<close> as the low one. On boundaries and a
  point that are plain numbers, or quantities of one unit, the three answers are decided
  and no error is raised, whereas \<open>contains\<close> with an interval argument always throws.
\<close>

theorem overlaps_point:
  "overlaps env i (Point p) prec = overlaps env i (Ival (Interval2 p p)) prec \<and>
   overlapsAfter env i (Point p) prec = overlapsAfter env i (Ival (Interval2 p p)) prec \<and>
   overlapsBefore env i (Point p) prec = overlapsBefore env i (Ival (Interval2 p p)) prec \<and>
   (toClosed env i = Inr c \<and> cmp env LE (low c) p prec = Inr l \<and>
    cmp env GE (high c) p prec = Inr h \<longrightarrow> overlaps env i (Point p) prec = Inr (and3 l h)) \<and>
   (toClosed env i = Inr c \<and> cmp env LE (low c) p prec = Inr l \<and>
    cmp env GT (high c) p prec = Inr h \<longrightarrow> overlapsAfter env i (Point p) prec = Inr (and3 l h)) \<and>
   (toClosed env i = Inr c \<and> cmp env LT (low c) p prec = Inr l \<and>
    cmp env GE (high c) p prec = Inr h \<longrightarrow> overlapsBefore env i (Point p) prec = Inr (and3 l h)) \<and>
   (toClosed env i = Inr c \<and> magnitude (low c) = Some (k, cl) \<and>
    magnitude (high c) = Some (k, ch) \<and> magnitude p = Some (k, x) \<longrightarrow>
      overlaps env i (Point p) prec = Inr (tv (cl \<le> x \<and> ch \<ge> x)) \<and>
      overlapsAfter env i (Point p) prec = Inr (tv (cl \<le> x \<and> ch > x)) \<and>
      overlapsBefore env i (Point p) prec = Inr (tv (cl < x \<and> ch \<ge> x))) \<and>
   (\<exists>e. contains env i (Ival j) prec = Inl e)"
proof -
  have "\<exists>e. contains env i (Ival j) prec = Inl e"
    by simp
  then show ?thesis
    by (auto simp: overlaps_def overlapsAfter_def overlapsBefore_def toClosed_degenerate
        cmp_magnitude)
qed

theorem overlaps_point_witness:
  "overlaps int_env (Interval (Some (Num 1)) (Some (Num 5)) False True) (Point (Some (Num 2))) None
     = Inr TTrue \<and>
   overlapsAfter int_env (Interval (Some (Num 1)) (Some (Num 5)) False True) (Point (Some (Num 2))) None
     = Inr TTrue \<and>
   overlapsBefore int_env (Interval (Some (Num 1)) (Some (Num 5)) False True) (Point (Some (Num 2))) None
     = Inr TFalse"
  using
    overlaps_point [where env = int_env and i = "Interval (Some (Num 1)) (Some (Num 5)) False True"
      and c = "Interval2 (Some (Num 2)) (Some (Num 5))" and p = "Some (Num 2)" and prec = None
      and l = TTrue and h = TTrue and k = None and cl = 2 and ch = 5 and x = 2]
    overlaps_point [where env = int_env and i = "Interval (Some (Num 1)) (Some (Num 5)) False True"
      and c = "Interval2 (Some (Num 2)) (Some (Num 5))" and p = "Some (Num 2)" and prec = None
      and l = TFalse and h = TTrue and k = None and cl = 2 and ch = 5 and x = 2]
  by (simp add: eval_defs)

section \<open>Adjacency\<close>

lemma toClosed_unbounded_high:
  "low other = Some (Num n) \<Longrightarrow> high other = None \<Longrightarrow> highClosed other \<Longrightarrow>
   (\<exists>e. toClosed env other = Inl e) \<or>
   (\<exists>b. toClosed env other = Inr b \<and> high b = Some (Num (max_num env)))"
  by (auto simp: toClosed_defs bindE_def split: sum.splits)

lemma toClosed_unbounded_low:
  "high other = Some (Num n) \<Longrightarrow> low other = None \<Longrightarrow> lowClosed other \<Longrightarrow>
   (\<exists>e. toClosed env other = Inl e) \<or>
   (\<exists>b. toClosed env other = Inr b \<and> low b = Some (Num (min_num env)))"
  by (auto simp: toClosed_defs bindE_def split: sum.splits)

text \<open>
  Claim C8. \<open>meetsAfter\<close> and \<open>meetsBefore\<close> never throw: whatever error the body of the
  \<open>try\<close> block raises, the operator answers false, and a body that returns gives its own
  answer. In particular, against an interval of numbers whose high boundary is unbounded
  and closed the body of \<open>meetsAfter\<close> always raises (stepping the sentinel, or calling
  \<open>add\<close> on a number), and the operator answers false for every receiver and precision;
  likewise \<open>meetsBefore\<close> against an unbounded closed low boundary.
\<close>

theorem meets_swallow_errors:
  "(meetsAfter_body env i other prec = Inl e \<longrightarrow> meetsAfter env i other prec = TFalse) \<and>
   (meetsBefore_body env i other prec = Inl e \<longrightarrow> meetsBefore env i other prec = TFalse) \<and>
   (meetsAfter_body env i other prec = Inr r \<longrightarrow> meetsAfter env i other prec = r) \<and>
   (meetsBefore_body env i other prec = Inr r \<longrightarrow> meetsBefore env i other prec = r) \<and>
   (low j = Some (Num n) \<and> high j = None \<and> highClosed j \<longrightarrow>
      (\<exists>e. meetsAfter_body env i (Ival j) prec = Inl e) \<and> meetsAfter env i (Ival j) prec = TFalse) \<and>
   (high j = Some (Num n) \<and> low j = None \<and> lowClosed j \<longrightarrow>
      (\<exists>e. meetsBefore_body env i (Ival j) prec = Inl e) \<and> meetsBefore env i (Ival j) prec = TFalse)"
proof -
  have A: "\<exists>e. meetsAfter_body env i (Ival j) prec = Inl e"
    if "low j = Some (Num n)" "high j = None" "highClosed j" for j n
    using toClosed_unbounded_high [OF that, of env]
    by (cases "toClosed env i") (auto simp: meetsAfter_body_def successor_opt_def)
  have B: "\<exists>e. meetsBefore_body env i (Ival j) prec = Inl e"
    if "high j = Some (Num n)" "low j = None" "lowClosed j" for j n
    using toClosed_unbounded_low [OF that, of env]
    by (cases "toClosed env i") (auto simp: meetsBefore_body_def predecessor_opt_def)
  show ?thesis
    using A [of j n] B [of j n] by (auto simp: meetsAfter_def meetsBefore_def)
qed

theorem meets_swallow_errors_witness:
  "meetsAfter_body int_env (Interval2 (Some (Num 1)) (Some (Num 5))) (Ival (Interval2 (Some (Num 0)) None)) None
     = Inl Overflow \<and>
   meetsAfter int_env (Interval2 (Some (Num 1)) (Some (Num 5))) (Ival (Interval2 (Some (Num 0)) None)) None
     = TFalse \<and>
   meetsBefore_body int_env (Interval2 (Some (Num 1)) (Some (Num 5))) (Ival (Interval2 None (Some (Num 9)))) None
     = Inl Overflow \<and>
   meetsBefore int_env (Interval2 (Some (Num 1)) (Some (Num 5))) (Ival (Interval2 None (Some (Num 9)))) None
     = TFalse \<and>
   meetsAfter_body int_env (Interval2 (Some (Num 6)) (Some (Num 9))) (Ival (Interval2 (Some (Num 0)) (Some (Num 5)))) None
     = Inr TTrue \<and>
   meetsAfter int_env (Interval2 (Some (Num 6)) (Some (Num 9))) (Ival (Interval2 (Some (Num 0)) (Some (Num 5)))) None
     = TTrue \<and>
   meetsBefore_body int_env (Interval2 (Some (Num 6)) (Some (Num 9))) (Ival (Interval2 (Some (Num 0)) (Some (Num 5)))) None
     = Inr TFalse \<and>
   meetsBefore int_env (Interval2 (Some (Num 6)) (Some (Num 9))) (Ival (Interval2 (Some (Num 0)) (Some (Num 5)))) None
     = TFalse"
  using
    meets_swallow_errors [where env = int_env and i = "Interval2 (Some (Num 1)) (Some (Num 5))"
      and other = "Ival (Interval2 (Some (Num 0)) None)" and prec = None and e = Overflow
      and r = TFalse and j = "Interval2 (Some (Num 0)) None" and n = 0]
    meets_swallow_errors [where env = int_env and i = "Interval2 (Some (Num 1)) (Some (Num 5))"
      and other = "Ival (Interval2 None (Some (Num 9)))" and prec = None and e = Overflow
      and r = TFalse and j = "Interval2 None (Some (Num 9))" and n = 9]
    meets_swallow_errors [where env = int_env and i = "Interval2 (Some (Num 6)) (Some (Num 9))"
      and other = "Ival (Interval2 (Some (Num 0)) (Some (Num 5)))" and prec = None
      and e = Overflow and r = TTrue and j = "Interval2 (Some (Num 0)) None" and n = 0]
    meets_swallow_errors [where env = int_env and i = "Interval2 (Some (Num 6)) (Some (Num 9))"
      and other = "Ival (Interval2 (Some (Num 0)) (Some (Num 5)))" and prec = None
      and e = Overflow and r = TFalse and j = "Interval2 None (Some (Num 9))" and n = 9]
  by (simp add: meetsAfter_body_def meetsBefore_body_def toClosed_defs Interval2_def int_env_def)


section \<open>sameAs and the unbounded interval\<close>


















section \<open>Reflexivity\<close>

lemma self_uncertain_low:
  assumes "toClosed env i = Inr c" "low c = Some (Unc pl ph)" "magnitude pl = Some (k, x)"
    "magnitude ph = Some (k, y)" "x < y" "magnitude (high c) = Some (k, h)"
  shows "equals env i (Ival i) = Inr TUnknown"
    and "includes_iv env i (Ival i) prec = Inr TUnknown"
  using assms cmp_Unc_self [OF assms(3,4,5), of env]
  by (simp_all add: cmp_magnitude [where k = k] del: cmp.simps)

lemma self_uncertain_high:
  assumes "toClosed env i = Inr c" "high c = Some (Unc pl ph)" "magnitude pl = Some (k, x)"
    "magnitude ph = Some (k, y)" "x < y" "magnitude (low c) = Some (k, l)"
  shows "equals env i (Ival i) = Inr TUnknown"
    and "includes_iv env i (Ival i) prec = Inr TUnknown"
  using assms cmp_Unc_self [OF assms(3,4,5), of env]
  by (simp_all add: cmp_magnitude [where k = k] del: cmp.simps)

lemma self_open_null_low:
  assumes "low i = None" "\<not> lowClosed i" "high i = Some (scalar k h)"
    "min_of env k < (if highClosed i then h else h - 1)"
  shows "equals env i (Ival i) = Inr TUnknown"
    and "includes_iv env i (Ival i) prec = Inr TUnknown"
    and "overlaps env i (Ival i) prec = Inr TTrue"
proof -
  have c: "toClosed env i =
     Inr (Interval (Some (Unc (Some (scalar k (min_of env k)))
                              (Some (scalar k (if highClosed i then h else h - 1)))))
                   (Some (scalar k (if highClosed i then h else h - 1))) True True)"
    using assms by (intro toClosed_open_null_low_scalar) (auto split: if_splits)
  show "equals env i (Ival i) = Inr TUnknown"
    by (rule self_uncertain_low(1) [OF c, where k = k]) (use assms in \<open>auto simp: Interval_def\<close>)
  show "includes_iv env i (Ival i) prec = Inr TUnknown"
    by (rule self_uncertain_low(2) [OF c, where k = k]) (use assms in \<open>auto simp: Interval_def\<close>)
  show "overlaps env i (Ival i) prec = Inr TTrue"
    using assms
    by (simp add: overlaps_def c Interval_def cmp_Unc_bounds [where k = k] decided_simps
        del: cmp.simps)
qed

lemma self_open_null_high:
  assumes "high i = None" "\<not> highClosed i" "low i = Some (scalar k l)"
    "(if lowClosed i then l else l + 1) < max_of env k"
  shows "equals env i (Ival i) = Inr TUnknown"
    and "includes_iv env i (Ival i) prec = Inr TUnknown"
    and "overlaps env i (Ival i) prec = Inr TTrue"
proof -
  have c: "toClosed env i =
     Inr (Interval (Some (scalar k (if lowClosed i then l else l + 1)))
                   (Some (Unc (Some (scalar k (if lowClosed i then l else l + 1)))
                              (Some (scalar k (max_of env k))))) True True)"
    using assms by (intro toClosed_open_null_high_scalar) (auto split: if_splits)
  show "equals env i (Ival i) = Inr TUnknown"
    by (rule self_uncertain_high(1) [OF c, where k = k]) (use assms in \<open>auto simp: Interval_def\<close>)
  show "includes_iv env i (Ival i) prec = Inr TUnknown"
    by (rule self_uncertain_high(2) [OF c, where k = k]) (use assms in \<open>auto simp: Interval_def\<close>)
  show "overlaps env i (Ival i) prec = Inr TTrue"
    using assms
    by (simp add: overlaps_def c Interval_def cmp_Unc_bounds [where k = k] decided_simps
        del: cmp.simps)
qed

text \<open>
  Claim C4, as the code has it. \<open>equals\<close>, \<open>includes\<close> and \<open>overlaps\<close> applied to the
  interval itself are true when the comparisons of its closed-form boundaries that they
  make are decided: each boundary equal to itself for \<open>equals\<close>, the low boundary \<open>\<le>\<close>
  itself and the high one \<open>\<ge>\<close> itself for \<open>includes\<close>, and low \<open>\<le>\<close> high for \<open>overlaps\<close>.
  For an interval whose closed form has plain numbers, or quantities of one unit, as
  boundaries, \<open>equals\<close> and \<open>includes\<close> applied to the interval itself are true, and
  \<open>overlaps\<close> applied to itself is true exactly when the closed form is not empty (its low
  boundary is at most its high boundary). When one boundary of the closed form is an
  Uncertainty from \<open>x\<close> to \<open>y\<close> with \<open>x < y\<close> and the other a number or quantity of the same
  unit, \<open>equals\<close> and \<open>includes\<close> applied to the interval itself are unknown. That is the
  closed form of an interval of numbers, or of quantities of one unit, with one open \<open>null\<close>
  boundary, low or high, whose other boundary is present (closed, or open and stepped)
  and strictly inside the sentinel: for it \<open>equals\<close> and \<open>includes\<close> are unknown and
  \<open>overlaps\<close> is true.
\<close>

theorem reflexive_on_scalars:
  "(toClosed env i = Inr c \<and> cmp env EQ (low c) (low c) None = Inr TTrue \<and>
    cmp env EQ (high c) (high c) None = Inr TTrue \<longrightarrow>
      equals env i (Ival i) = Inr TTrue) \<and>
   (toClosed env i = Inr c \<and> cmp env LE (low c) (low c) prec = Inr TTrue \<and>
    cmp env GE (high c) (high c) prec = Inr TTrue \<longrightarrow>
      includes_iv env i (Ival i) prec = Inr TTrue) \<and>
   (toClosed env i = Inr c \<and> cmp env LE (low c) (high c) prec = Inr TTrue \<and>
    cmp env GE (high c) (low c) prec = Inr TTrue \<longrightarrow>
      overlaps env i (Ival i) prec = Inr TTrue) \<and>
   (toClosed env i = Inr c \<and> magnitude (low c) = Some (k, l) \<and>
    magnitude (high c) = Some (k, h) \<longrightarrow>
      equals env i (Ival i) = Inr TTrue \<and>
      includes_iv env i (Ival i) prec = Inr TTrue \<and>
      overlaps env i (Ival i) prec = Inr (tv (l \<le> h))) \<and>
   (toClosed env i = Inr c \<and> low c = Some (Unc pl ph) \<and> magnitude pl = Some (k, x) \<and>
    magnitude ph = Some (k, y) \<and> x < y \<and> magnitude (high c) = Some (k, h) \<longrightarrow>
      equals env i (Ival i) = Inr TUnknown \<and>
      includes_iv env i (Ival i) prec = Inr TUnknown) \<and>
   (toClosed env i = Inr c \<and> high c = Some (Unc pl ph) \<and> magnitude pl = Some (k, x) \<and>
    magnitude ph = Some (k, y) \<and> x < y \<and> magnitude (low c) = Some (k, l) \<longrightarrow>
      equals env i (Ival i) = Inr TUnknown \<and>
      includes_iv env i (Ival i) prec = Inr TUnknown) \<and>
   (low i = None \<and> \<not> lowClosed i \<and> high i = Some (scalar k h) \<and>
    min_of env k < (if highClosed i then h else h - 1) \<longrightarrow>
      equals env i (Ival i) = Inr TUnknown \<and>
      includes_iv env i (Ival i) prec = Inr TUnknown \<and>
      overlaps env i (Ival i) prec = Inr TTrue) \<and>
   (high i = None \<and> \<not> highClosed i \<and> low i = Some (scalar k l) \<and>
    (if lowClosed i then l else l + 1) < max_of env k \<longrightarrow>
      equals env i (Ival i) = Inr TUnknown \<and>
      includes_iv env i (Ival i) prec = Inr TUnknown \<and>
      overlaps env i (Ival i) prec = Inr TTrue)"
proof (intro conjI impI)
  assume "toClosed env i = Inr c \<and> cmp env EQ (low c) (low c) None = Inr TTrue \<and>
    cmp env EQ (high c) (high c) None = Inr TTrue"
  then show "equals env i (Ival i) = Inr TTrue"
    by simp
next
  assume "toClosed env i = Inr c \<and> cmp env LE (low c) (low c) prec = Inr TTrue \<and>
    cmp env GE (high c) (high c) prec = Inr TTrue"
  then show "includes_iv env i (Ival i) prec = Inr TTrue"
    by simp
next
  assume "toClosed env i = Inr c \<and> cmp env LE (low c) (high c) prec = Inr TTrue \<and>
    cmp env GE (high c) (low c) prec = Inr TTrue"
  then show "overlaps env i (Ival i) prec = Inr TTrue"
    by (simp add: overlaps_def)
next
  assume H: "toClosed env i = Inr c \<and> magnitude (low c) = Some (k, l) \<and>
    magnitude (high c) = Some (k, h)"
  then show "equals env i (Ival i) = Inr TTrue"
    by (simp add: cmp_magnitude [where k = k])
  from H show "includes_iv env i (Ival i) prec = Inr TTrue"
    by (simp add: cmp_magnitude [where k = k])
  from H show "overlaps env i (Ival i) prec = Inr (tv (l \<le> h))"
    by (simp add: overlaps_def cmp_magnitude [where k = k])
next
  assume H: "toClosed env i = Inr c \<and> low c = Some (Unc pl ph) \<and> magnitude pl = Some (k, x) \<and>
    magnitude ph = Some (k, y) \<and> x < y \<and> magnitude (high c) = Some (k, h)"
  then show "equals env i (Ival i) = Inr TUnknown"
    by (intro self_uncertain_low(1) [where c = c and k = k and x = x and y = y and h = h]) blast+
  from H show "includes_iv env i (Ival i) prec = Inr TUnknown"
    by (intro self_uncertain_low(2) [where c = c and k = k and x = x and y = y and h = h]) blast+
next
  assume H: "toClosed env i = Inr c \<and> high c = Some (Unc pl ph) \<and> magnitude pl = Some (k, x) \<and>
    magnitude ph = Some (k, y) \<and> x < y \<and> magnitude (low c) = Some (k, l)"
  then show "equals env i (Ival i) = Inr TUnknown"
    by (intro self_uncertain_high(1) [where c = c and k = k and x = x and y = y and l = l]) blast+
  from H show "includes_iv env i (Ival i) prec = Inr TUnknown"
    by (intro self_uncertain_high(2) [where c = c and k = k and x = x and y = y and l = l]) blast+
next
  assume H: "low i = None \<and> \<not> lowClosed i \<and> high i = Some (scalar k h) \<and>
    min_of env k < (if highClosed i then h else h - 1)"
  then show "equals env i (Ival i) = Inr TUnknown"
    by (intro self_open_null_low(1) [where k = k and h = h]) blast+
  from H show "includes_iv env i (Ival i) prec = Inr TUnknown"
    by (intro self_open_null_low(2) [where k = k and h = h]) blast+
  from H show "overlaps env i (Ival i) prec = Inr TTrue"
    by (intro self_open_null_low(3) [where k = k and h = h]) blast+
next
  assume H: "high i = None \<and> \<not> highClosed i \<and> low i = Some (scalar k l) \<and>
    (if lowClosed i then l else l + 1) < max_of env k"
  then show "equals env i (Ival i) = Inr TUnknown"
    by (intro self_open_null_high(1) [where k = k and l = l]) blast+
  from H show "includes_iv env i (Ival i) prec = Inr TUnknown"
    by (intro self_open_null_high(2) [where k = k and l = l]) blast+
  from H show "overlaps env i (Ival i) prec = Inr TTrue"
    by (intro self_open_null_high(3) [where k = k and l = l]) blast+
qed

theorem reflexive_on_scalars_witness:
  "equals int_env (Interval (Some (Num 1)) (Some (Num 5)) False True)
     (Ival (Interval (Some (Num 1)) (Some (Num 5)) False True)) = Inr TTrue \<and>
   includes_iv int_env (Interval (Some (Num 1)) (Some (Num 5)) False True)
     (Ival (Interval (Some (Num 1)) (Some (Num 5)) False True)) None = Inr TTrue \<and>
   overlaps int_env (Interval (Some (Num 1)) (Some (Num 5)) False True)
     (Ival (Interval (Some (Num 1)) (Some (Num 5)) False True)) None = Inr TTrue \<and>
   equals int_env (Interval None (Some (Num 7)) False False)
     (Ival (Interval None (Some (Num 7)) False False)) = Inr TUnknown \<and>
   includes_iv int_env (Interval None (Some (Num 7)) False False)
     (Ival (Interval None (Some (Num 7)) False False)) None = Inr TUnknown \<and>
   overlaps int_env (Interval None (Some (Num 7)) False False)
     (Ival (Interval None (Some (Num 7)) False False)) None = Inr TTrue \<and>
   equals int_env (Interval (Some (Qty 1 ''mg'')) None True False)
     (Ival (Interval (Some (Qty 1 ''mg'')) None True False)) = Inr TUnknown \<and>
   includes_iv int_env (Interval (Some (Qty 1 ''mg'')) None True False)
     (Ival (Interval (Some (Qty 1 ''mg'')) None True False)) None = Inr TUnknown \<and>
   overlaps int_env (Interval (Some (Qty 1 ''mg'')) None True False)
     (Ival (Interval (Some (Qty 1 ''mg'')) None True False)) None = Inr TTrue"
  using
    reflexive_on_scalars [where env = int_env
      and i = "Interval (Some (Num 1)) (Some (Num 5)) False True"
      and c = "Interval2 (Some (Num 2)) (Some (Num 5))" and k = None and l = 2 and h = 5
      and prec = None]
    reflexive_on_scalars [where env = int_env
      and i = "Interval None (Some (Num 7)) False False"
      and c = "Interval2 (Some (Unc (Some (Num (- 2147483648))) (Some (Num 6)))) (Some (Num 6))"
      and pl = "Some (Num (- 2147483648))" and ph = "Some (Num 6)"
      and k = None and x = "- 2147483648" and y = 6 and h = 6 and prec = None]
    reflexive_on_scalars [where env = int_env
      and i = "Interval None (Some (Num 7)) False False" and k = None and h = 7 and prec = None]
    reflexive_on_scalars [where env = int_env
      and i = "Interval (Some (Qty 1 ''mg'')) None True False"
      and c = "Interval2 (Some (Qty 1 ''mg'')) (Some (Unc (Some (Qty 1 ''mg'')) (Some (Qty 2147483647 ''mg''))))"
      and pl = "Some (Qty 1 ''mg'')" and ph = "Some (Qty 2147483647 ''mg'')"
      and k = "Some ''mg''" and x = 1 and y = 2147483647 and l = 1 and prec = None]
  by (simp add: eval_defs or3_def)

text \<open>
  The claim as stated fails: the open interval \<open>(1, 2)\<close> of integers has the empty closed
  form \<open>[2, 1]\<close> and does not overlap itself, and for \<open>(null, 5]\<close>, whose closed low
  boundary is an Uncertainty, \<open>equals\<close> and \<open>includes\<close> applied to itself are unknown.
\<close>

theorem reflexive_counterexample:
  "overlaps int_env (Interval (Some (Num 1)) (Some (Num 2)) False False)
     (Ival (Interval (Some (Num 1)) (Some (Num 2)) False False)) None = Inr TFalse \<and>
   equals int_env (Interval None (Some (Num 5)) False True)
     (Ival (Interval None (Some (Num 5)) False True)) = Inr TUnknown \<and>
   includes_iv int_env (Interval None (Some (Num 5)) False True)
     (Ival (Interval None (Some (Num 5)) False True)) None = Inr TUnknown"
  by (simp add: eval_defs or3_def)

section \<open>Idempotence of the closed form\<close>

lemma twice_equals_closed:
  assumes "toClosed env i = Inr c"
  shows "toClosed_twice_equals env i =
     bindE (cmp env EQ (low c) (low c) None) (\<lambda>l.
     bindE (cmp env EQ (high c) (high c) None) (\<lambda>h. Inr (and3 l h)))"
  using assms toClosed_idem [OF assms] by (simp add: toClosed_twice_equals_def)

lemma twice_uncertain_low:
  assumes "toClosed env i = Inr c" "low c = Some (Unc pl ph)" "magnitude pl = Some (k, x)"
    "magnitude ph = Some (k, y)" "x < y" "magnitude (high c) = Some (k, h)"
  shows "toClosed_twice_equals env i = Inr TUnknown"
  using assms cmp_Unc_self [OF assms(3,4,5), of env]
  by (simp add: twice_equals_closed cmp_magnitude [where k = k] del: cmp.simps)

lemma twice_uncertain_high:
  assumes "toClosed env i = Inr c" "high c = Some (Unc pl ph)" "magnitude pl = Some (k, x)"
    "magnitude ph = Some (k, y)" "x < y" "magnitude (low c) = Some (k, l)"
  shows "toClosed_twice_equals env i = Inr TUnknown"
  using assms cmp_Unc_self [OF assms(3,4,5), of env]
  by (simp add: twice_equals_closed cmp_magnitude [where k = k] del: cmp.simps)

lemma twice_open_null_low:
  assumes "low i = None" "\<not> lowClosed i" "high i = Some (scalar k h)"
    "min_of env k < (if highClosed i then h else h - 1)"
  shows "toClosed_twice_equals env i = Inr TUnknown"
proof -
  have c: "toClosed env i =
     Inr (Interval (Some (Unc (Some (scalar k (min_of env k)))
                              (Some (scalar k (if highClosed i then h else h - 1)))))
                   (Some (scalar k (if highClosed i then h else h - 1))) True True)"
    using assms by (intro toClosed_open_null_low_scalar) (auto split: if_splits)
  show ?thesis
    by (rule twice_uncertain_low [OF c, where k = k]) (use assms in \<open>auto simp: Interval_def\<close>)
qed

lemma twice_open_null_high:
  assumes "high i = None" "\<not> highClosed i" "low i = Some (scalar k l)"
    "(if lowClosed i then l else l + 1) < max_of env k"
  shows "toClosed_twice_equals env i = Inr TUnknown"
proof -
  have c: "toClosed env i =
     Inr (Interval (Some (scalar k (if lowClosed i then l else l + 1)))
                   (Some (Unc (Some (scalar k (if lowClosed i then l else l + 1)))
                              (Some (scalar k (max_of env k))))) True True)"
    using assms by (intro toClosed_open_null_high_scalar) (auto split: if_splits)
  show ?thesis
    by (rule twice_uncertain_high [OF c, where k = k]) (use assms in \<open>auto simp: Interval_def\<close>)
qed

text \<open>
  Claim C5, as the code has it. Whenever \<open>toClosed\<close> returns, applying it to its result
  returns that result unchanged (the same boundaries and flags). The comparison
  \<open>A.toClosed().toClosed().equals(A.toClosed())\<close> is true when each boundary of the closed
  form is decidably equal to itself, as plain numbers and quantities are (among them
  stepped open boundaries and sentinels of unbounded closed boundaries). It is unknown
  when one boundary of the closed form is an Uncertainty from \<open>x\<close> to \<open>y\<close> with \<open>x < y\<close>
  and the other a number or quantity of the same unit: that is the closed form of an
  interval of numbers, or of quantities of one unit, with one open \<open>null\<close> boundary, low or
  high, whose other boundary is present (closed, or open and stepped) and strictly inside
  the sentinel.
\<close>

theorem toClosed_idempotent:
  "(toClosed env i = Inr c \<longrightarrow> toClosed env c = Inr c) \<and>
   (toClosed env i = Inr c \<and> cmp env EQ (low c) (low c) None = Inr TTrue \<and>
    cmp env EQ (high c) (high c) None = Inr TTrue \<longrightarrow>
      toClosed_twice_equals env i = Inr TTrue) \<and>
   (toClosed env i = Inr c \<and> magnitude (low c) = Some (k, l) \<and>
    magnitude (high c) = Some (k, h) \<longrightarrow>
      toClosed_twice_equals env i = Inr TTrue) \<and>
   (toClosed env i = Inr c \<and> low c = Some (Unc pl ph) \<and> magnitude pl = Some (k, x) \<and>
    magnitude ph = Some (k, y) \<and> x < y \<and> magnitude (high c) = Some (k, h) \<longrightarrow>
      toClosed_twice_equals env i = Inr TUnknown) \<and>
   (toClosed env i = Inr c \<and> high c = Some (Unc pl ph) \<and> magnitude pl = Some (k, x) \<and>
    magnitude ph = Some (k, y) \<and> x < y \<and> magnitude (low c) = Some (k, l) \<longrightarrow>
      toClosed_twice_equals env i = Inr TUnknown) \<and>
   (low i = None \<and> \<not> lowClosed i \<and> high i = Some (scalar k h) \<and>
    min_of env k < (if highClosed i then h else h - 1) \<longrightarrow>
      toClosed_twice_equals env i = Inr TUnknown) \<and>
   (high i = None \<and> \<not> highClosed i \<and> low i = Some (scalar k l) \<and>
    (if lowClosed i then l else l + 1) < max_of env k \<longrightarrow>
      toClosed_twice_equals env i = Inr TUnknown)"
proof (intro conjI impI)
  assume "toClosed env i = Inr c"
  then show "toClosed env c = Inr c" by (rule toClosed_idem)
next
  assume H: "toClosed env i = Inr c \<and> cmp env EQ (low c) (low c) None = Inr TTrue \<and>
    cmp env EQ (high c) (high c) None = Inr TTrue"
  then have "toClosed env c = Inr c" by (auto intro: toClosed_idem)
  with H show "toClosed_twice_equals env i = Inr TTrue"
    by (simp add: toClosed_twice_equals_def)
next
  assume H: "toClosed env i = Inr c \<and> magnitude (low c) = Some (k, l) \<and>
    magnitude (high c) = Some (k, h)"
  then have "toClosed env c = Inr c" by (auto intro: toClosed_idem)
  with H show "toClosed_twice_equals env i = Inr TTrue"
    by (simp add: toClosed_twice_equals_def cmp_magnitude [where k = k])
next
  assume "toClosed env i = Inr c \<and> low c = Some (Unc pl ph) \<and> magnitude pl = Some (k, x) \<and>
    magnitude ph = Some (k, y) \<and> x < y \<and> magnitude (high c) = Some (k, h)"
  then show "toClosed_twice_equals env i = Inr TUnknown"
    by (intro twice_uncertain_low [where c = c and k = k and x = x and y = y and h = h]) blast+
next
  assume "toClosed env i = Inr c \<and> high c = Some (Unc pl ph) \<and> magnitude pl = Some (k, x) \<and>
    magnitude ph = Some (k, y) \<and> x < y \<and> magnitude (low c) = Some (k, l)"
  then show "toClosed_twice_equals env i = Inr TUnknown"
    by (intro twice_uncertain_high [where c = c and k = k and x = x and y = y and l = l]) blast+
next
  assume "low i = None \<and> \<not> lowClosed i \<and> high i = Some (scalar k h) \<and>
    min_of env k < (if highClosed i then h else h - 1)"
  then show "toClosed_twice_equals env i = Inr TUnknown"
    by (intro twice_open_null_low [where k = k and h = h]) blast+
next
  assume "high i = None \<and> \<not> highClosed i \<and> low i = Some (scalar k l) \<and>
    (if lowClosed i then l else l + 1) < max_of env k"
  then show "toClosed_twice_equals env i = Inr TUnknown"
    by (intro twice_open_null_high [where k = k and l = l]) blast+
qed

theorem toClosed_idempotent_witness:
  "toClosed int_env (Interval2 (Some (Num 2)) (Some (Num 4))) =
     Inr (Interval2 (Some (Num 2)) (Some (Num 4))) \<and>
   toClosed_twice_equals int_env (Interval (Some (Num 1)) (Some (Num 5)) False False) = Inr TTrue \<and>
   toClosed_twice_equals int_env (Interval None (Some (Num 7)) False False) = Inr TUnknown \<and>
   toClosed_twice_equals int_env (Interval (Some (Qty 1 ''mg'')) None True False) = Inr TUnknown"
  using
    toClosed_idempotent [where env = int_env
      and i = "Interval (Some (Num 1)) (Some (Num 5)) False False"
      and c = "Interval2 (Some (Num 2)) (Some (Num 4))" and k = None and l = 2 and h = 4]
    toClosed_idempotent [where env = int_env
      and i = "Interval None (Some (Num 7)) False False"
      and c = "Interval2 (Some (Unc (Some (Num (- 2147483648))) (Some (Num 6)))) (Some (Num 6))"
      and pl = "Some (Num (- 2147483648))" and ph = "Some (Num 6)"
      and k = None and x = "- 2147483648" and y = 6 and h = 6]
    toClosed_idempotent [where env = int_env
      and i = "Interval None (Some (Num 7)) False False" and k = None and h = 7]
    toClosed_idempotent [where env = int_env
      and i = "Interval (Some (Qty 1 ''mg'')) None True False"
      and c = "Interval2 (Some (Qty 1 ''mg'')) (Some (Unc (Some (Qty 1 ''mg'')) (Some (Qty 2147483647 ''mg''))))"
      and pl = "Some (Qty 1 ''mg'')" and ph = "Some (Qty 2147483647 ''mg'')"
      and k = "Some ''mg''" and x = 1 and y = 2147483647 and l = 1]
  by (simp add: toClosed_twice_equals_def eval_defs or3_def)

text \<open>
  The claim as stated fails at \<open>(null, 5]\<close>: its closed form is
  \<open>[Uncertainty(min, 5), 5]\<close>, a second \<open>toClosed\<close> leaves it as it is, and \<open>equals\<close>
  between the two is unknown, not true.
\<close>

theorem toClosed_idempotent_counterexample:
  "toClosed_twice_equals int_env (Interval None (Some (Num 5)) False True) = Inr TUnknown"
  by (simp add: toClosed_twice_equals_def eval_defs or3_def)


section \<open>Commutativity of union and intersection\<close>




lemma sentinel_magnitude:
  "magnitude p = Some (k, x) \<Longrightarrow>
   (\<exists>y. magnitude (minValueForInstance env p) = Some (k, y)) \<and>
   (\<exists>y. magnitude (maxValueForInstance env p) = Some (k, y))"
  by (drule magnitude_cases) auto



lemma magnitude_Unc [simp]: "magnitude (Some (Unc l h)) = None"
  by simp













lemma magnitude_if:
  "magnitude x = Some (k, a) \<Longrightarrow> magnitude y = Some (k, b) \<Longrightarrow>
   magnitude (if p then x else y) = Some (k, if p then a else b)"
  by simp






section \<open>Width\<close>

lemma round8_example: "round8 (123456789 / 10 ^ 9) = 12345679 / 10 ^ 8"
  by code_simp

lemma round8_int: "round8 4 = 4"
  by code_simp

lemma width_temporal:
  "temporal_opt env (low i) \<or> temporal_opt env (high i) \<Longrightarrow>
   width env i = Inl (Error ''Width of Date, DateTime, and Time intervals is not supported'')"
  by (simp add: width_def)

lemma width_uncertain:
  "\<not> temporal_opt env (low i) \<Longrightarrow> \<not> temporal_opt env (high i) \<Longrightarrow> toClosed env i = Inr c \<Longrightarrow>
   isUncertainty_opt (low c) \<or> isUncertainty_opt (high c) \<Longrightarrow> width env i = Inr WNull"
  by (simp add: width_def)

text \<open>
  Claim C7, evaluated on the code. A closed interval of two quantities of one unit has the
  width \<open>|high - low|\<close> as it is: the source computes the value rounded to 8 decimal
  places and drops it. A closed interval of two numbers has the rounded width. For the
  boundaries 0 and 0.123456789 the Quantity interval answers 0.123456789 where the number
  interval answers 0.12345679. \<open>Interval(1, 5).width()\<close> is 4, and quantities of
  different units are an error.
\<close>

theorem width_quantity_not_rounded:
  "width env (Interval2 (Some (Qty lv u)) (Some (Qty hv u))) = Inr (WQty \<bar>hv - lv\<bar> u) \<and>
   width env (Interval2 (Some (Num l)) (Some (Num h))) = Inr (WNum (round8 \<bar>h - l\<bar>)) \<and>
   width env (Interval2 (Some (Qty 0 ''mg'')) (Some (Qty (123456789 / 10 ^ 9) ''mg'')))
     = Inr (WQty (123456789 / 10 ^ 9) ''mg'') \<and>
   width env (Interval2 (Some (Num 0)) (Some (Num (123456789 / 10 ^ 9))))
     = Inr (WNum (12345679 / 10 ^ 8)) \<and>
   round8 (123456789 / 10 ^ 9) = 12345679 / 10 ^ 8 \<and>
   width env (Interval2 (Some (Num 1)) (Some (Num 5))) = Inr (WNum 4) \<and>
   width env (Interval2 (Some (Qty 1 ''m'')) (Some (Qty 5 ''cm''))) =
     Inl (Error ''Cannot calculate width of Quantity Interval with different units'')"
proof -
  have q: "width env (Interval2 (Some (Qty lv u)) (Some (Qty hv v))) =
      (if u = v then Inr (WQty \<bar>hv - lv\<bar> u)
       else Inl (Error ''Cannot calculate width of Quantity Interval with different units''))"
    for lv hv u v
    by (simp add: width_def)
  have n: "width env (Interval2 (Some (Num l)) (Some (Num h))) = Inr (WNum (round8 \<bar>h - l\<bar>))"
    for l h
    by (simp add: width_def)
  show ?thesis
    using round8_example round8_int by (simp add: q n)
qed

end
